theory Spec2Isabelle
  imports Complex_Main "HOL-Library.Word"
begin

unbundle bit_operations_syntax

section \<open>Auduino: data model\<close>

text \<open>
  The synthesiser of \<^verbatim>\<open>src/auduino.cpp\<close> targets AVR microcontrollers, where
  \<^verbatim>\<open>int\<close> is 16 bits wide: \<^verbatim>\<open>uint8_t\<close> operands are promoted to (signed)
  \<^verbatim>\<open>int\<close>, \<^verbatim>\<open>uint16_t\<close> operands to \<^verbatim>\<open>unsigned int\<close>. Unsigned machine values are
  words; a promoted signed value that cannot overflow is an \<open>int\<close>.
\<close>

type_synonym uint8_t = "8 word"
type_synonym uint16_t = "16 word"

text \<open>\<^verbatim>\<open>struct Note\<close> with its \<^verbatim>\<open>enum Gate\<close> (auduino.cpp, lines 33-41).\<close>

datatype Gate = CLOSED | OPEN

record Note =
  gate :: Gate
  number :: uint8_t
  velocity :: uint8_t

text \<open>
  Modelled from the spec: the type \<^verbatim>\<open>Phase\<close> is declared in \<^verbatim>\<open>phase.h\<close>, which is not
  among the sources. The spec gives it as
  \<^verbatim>\<open>{ position: unsigned 16-bit, increment: unsigned 16-bit }\<close>.
\<close>

record Phase =
  position :: uint16_t
  increment :: uint16_t

text \<open>
  Modelled from the spec: the type \<^verbatim>\<open>Env\<close> is declared in a header that is not among
  the sources. The spec gives it as \<^verbatim>\<open>{ amplitude: unsigned 16-bit, decayRate: unsigned
  8-bit, divider: unsigned 8-bit, counter: unsigned 8-bit }\<close>; the fields that auduino.cpp
  assigns are called \<^verbatim>\<open>amp\<close>, \<^verbatim>\<open>decay\<close> and \<^verbatim>\<open>divider\<close> there.
\<close>

record Env =
  amp :: uint16_t
  decay :: uint8_t
  divider :: uint8_t
  counter :: uint8_t

text \<open>
  Modelled from the spec: the type \<^verbatim>\<open>Grain\<close> is declared in \<^verbatim>\<open>grain.h\<close>, which is not
  among the sources. It owns one phase accumulator and one envelope by value; auduino.cpp
  reaches them as \<^verbatim>\<open>.phase\<close> and \<^verbatim>\<open>.env\<close>.
\<close>

record Grain =
  phase :: Phase
  env :: Env

text \<open>
  \<^verbatim>\<open>struct Voice\<close> (auduino.cpp, lines 43-48). The two-element arrays \<^verbatim>\<open>sync[2]\<close> and
  \<^verbatim>\<open>grains[2]\<close> are pairs: \<open>fst\<close> is element 0 and \<open>snd\<close> is element 1. All code of the
  file works on \<^verbatim>\<open>voices[0]\<close>, which is the voice that the functions below transform.
\<close>

record Voice =
  "note" :: Note
  env :: Env
  sync :: "Phase \<times> Phase"
  grains :: "Grain \<times> Grain"

text \<open>
  The two data bytes \<^verbatim>\<open>message.data[0]\<close> and \<^verbatim>\<open>message.data[1]\<close> of a \<^verbatim>\<open>MidiMessage\<close>
  (declared in \<^verbatim>\<open>midi.h\<close>, which is not among the sources).
\<close>

type_synonym MidiMessage = "uint8_t \<times> uint8_t"

text \<open>Objects with static storage duration start zero-initialised.\<close>

definition zero_Phase :: Phase where
  "zero_Phase = \<lparr>position = 0, increment = 0\<rparr>"

definition zero_Env :: Env where
  "zero_Env = \<lparr>amp = 0, decay = 0, divider = 0, counter = 0\<rparr>"

definition zero_Grain :: Grain where
  "zero_Grain = \<lparr>phase = zero_Phase, env = zero_Env\<rparr>"

definition zero_Voice :: Voice where
  "zero_Voice = \<lparr>note = \<lparr>gate = CLOSED, number = 0, velocity = 0\<rparr>, env = zero_Env,
     sync = (zero_Phase, zero_Phase), grains = (zero_Grain, zero_Grain)\<rparr>"

section \<open>Lookup tables\<close>

text \<open>
  \<^verbatim>\<open>pgm_read_word(&table[i])\<close> reads a 16-bit word of program memory. Nothing guards the
  index: outside the table the read returns whatever the flash holds at that address,
  which is the parameter \<open>flash\<close> (indexed like the table). The index is a C \<^verbatim>\<open>int\<close>.
\<close>

definition in_table :: "'a list \<Rightarrow> int \<Rightarrow> bool" where
  "in_table table i \<longleftrightarrow> 0 \<le> i \<and> i < int (length table)"

definition pgm_read_word :: "uint16_t list \<Rightarrow> (int \<Rightarrow> uint16_t) \<Rightarrow> int \<Rightarrow> uint16_t" where
  "pgm_read_word table flash i = (if in_table table i then table ! nat i else flash i)"

definition no_flash :: "int \<Rightarrow> uint16_t" where
  "no_flash i = 0"

text \<open>
  \<^verbatim>\<open>midiNoteToFreq\<close>, \<^verbatim>\<open>freqToInc\<close> and \<^verbatim>\<open>MIDI_TO_INC\<close> (lines 110-119). The compiler
  evaluates them in \<^verbatim>\<open>double\<close> arithmetic; here they are evaluated over the reals (see
  \<open>midiTable_rounding_robust\<close> below for what a relative error does to the table). The
  conversion of the \<^verbatim>\<open>double\<close> result to \<^verbatim>\<open>uint16_t\<close> truncates towards zero.
\<close>

definition midiNoteToFreq :: "real \<Rightarrow> real" where
  "midiNoteToFreq p = 2 powr ((p - 69) / 12) * 440"

definition double_to_uint16 :: "real \<Rightarrow> uint16_t" where
  "double_to_uint16 x = word_of_int (if 0 \<le> x then \<lfloor>x\<rfloor> else \<lceil>x\<rceil>)"

definition freqToInc :: "real \<Rightarrow> real \<Rightarrow> real \<Rightarrow> uint16_t" where
  "freqToInc f accSteps sr = double_to_uint16 (f * accSteps / sr + 0.5)"

definition MIDI_TO_INC :: "real \<Rightarrow> uint16_t" where
  "MIDI_TO_INC p = freqToInc (midiNoteToFreq p) 65536 31250"

text \<open>\<^verbatim>\<open>midiTable[128]\<close> (lines 123-140): \<^verbatim>\<open>MIDI_TO_INC(0), ..., MIDI_TO_INC(127)\<close>.\<close>

definition midiTable :: "uint16_t list" where
  "midiTable = map (\<lambda>p. MIDI_TO_INC (real p)) [0..<128]"

text \<open>
  The earlier, hand-written table that the source keeps in a comment (lines 141-151).
\<close>

definition midiTable_comment :: "int list" where
  "midiTable_comment =
    [17, 18, 19, 20, 22, 23, 24, 26, 27, 29, 31, 32, 34, 36, 38, 41,
     43, 46, 48, 51, 54, 58, 61, 65, 69, 73, 77, 82, 86, 92, 97, 103,
     109, 115, 122, 129, 137, 145, 154, 163, 173, 183, 194, 206, 218, 231, 244, 259,
     274, 291, 308, 326, 346, 366, 388, 411, 435, 461, 489, 518, 549, 581, 616, 652,
     691, 732, 776, 822, 871, 923, 978, 1036, 1097, 1163, 1232, 1305, 1383, 1465, 1552, 1644,
     1742, 1845, 1955, 2071, 2195, 2325, 2463, 2610, 2765, 2930, 3104, 3288, 3484, 3691, 3910, 4143,
     4389, 4650, 4927, 5220, 5530, 5859, 6207, 6577, 6968, 7382, 7821, 8286, 8779, 9301, 9854, 10440,
     11060, 11718, 12415, 13153, 13935, 14764, 15642, 16572, 17557, 18601, 19708, 20879, 22121, 23436, 24830, 26306]"

text \<open>\<^verbatim>\<open>mapMidi\<close> (lines 153-155); \<^verbatim>\<open>1023 - input\<close> is computed in 16-bit unsigned arithmetic.\<close>

definition mapMidi_index :: "uint16_t \<Rightarrow> uint16_t" where
  "mapMidi_index input = drop_bit 3 (1023 - input)"

definition mapMidi :: "(int \<Rightarrow> uint16_t) \<Rightarrow> uint16_t \<Rightarrow> uint16_t" where
  "mapMidi flash input = pgm_read_word midiTable flash (uint (mapMidi_index input))"

text \<open>\<^verbatim>\<open>pentatonicTable[54]\<close> (lines 159-163).\<close>

definition pentatonicTable :: "uint16_t list" where
  "pentatonicTable =
    [0, 19, 22, 26, 29, 32, 38, 43, 51, 58, 65, 77, 86, 103, 115, 129, 154, 173, 206, 231, 259, 308, 346,
     411, 461, 518, 616, 691, 822, 923, 1036, 1232, 1383, 1644, 1845, 2071, 2463, 2765, 3288,
     3691, 4143, 4927, 5530, 6577, 7382, 8286, 9854, 11060, 13153, 14764, 16572, 19708, 22121, 26306]"

text \<open>
  \<^verbatim>\<open>mapPentatonic\<close> (lines 165-168): \<^verbatim>\<open>uint8_t value = (1023-input) * 53 >> 10\<close>, the
  product and the shift in 16-bit unsigned arithmetic, the result narrowed to 8 bits.
\<close>

definition mapPentatonic_value :: "uint16_t \<Rightarrow> uint8_t" where
  "mapPentatonic_value input = ucast (drop_bit 10 ((1023 - input) * 53))"

definition mapPentatonic :: "(int \<Rightarrow> uint16_t) \<Rightarrow> uint16_t \<Rightarrow> uint16_t" where
  "mapPentatonic flash input =
     pgm_read_word pentatonicTable flash (uint (mapPentatonic_value input))"

section \<open>Phase accumulator and envelope\<close>

text \<open>
  Modelled from the spec: \<^verbatim>\<open>Phase::setInc\<close> (phase.h, not among the sources):
  "setIncrement(v) replaces increment unconditionally".
\<close>

definition setInc :: "uint16_t \<Rightarrow> Phase \<Rightarrow> Phase" where
  "setInc v ph = ph\<lparr>increment := v\<rparr>"

text \<open>
  Modelled from the spec: \<^verbatim>\<open>Phase::operator++\<close> (phase.h, not among the sources):
  "adds increment to position with 16-bit wraparound".
\<close>

definition Phase_increment :: "Phase \<Rightarrow> Phase" where
  "Phase_increment ph = ph\<lparr>position := position ph + increment ph\<rparr>"

text \<open>
  Modelled from the spec: \<^verbatim>\<open>Phase::hasOverflowed\<close> (phase.h, not among the sources):
  "overflow is detected by comparing the post-increment position against the
  pre-increment position (position decreased => wrapped)". The first argument is the
  accumulator before the advance, the second the accumulator after it.
\<close>

definition hasOverflowed :: "Phase \<Rightarrow> Phase \<Rightarrow> bool" where
  "hasOverflowed before after \<longleftrightarrow> position after < position before"

text \<open>
  Modelled from the spec: the advance operation of a phase accumulator, "adds increment
  to position with 16-bit wraparound, returns whether wraparound occurred this call": the
  \<^verbatim>\<open>++voices[0].sync[i]\<close> of the interrupt handler (lines 270-271) together with the
  \<^verbatim>\<open>hasOverflowed()\<close> it tests afterwards (lines 273, 279).
\<close>

definition advance :: "Phase \<Rightarrow> Phase \<times> bool" where
  "advance ph = (let ph' = Phase_increment ph in (ph', hasOverflowed ph ph'))"

text \<open>
  Modelled from the spec: \<^verbatim>\<open>Env::tick\<close> (not among the sources): "on each call, increments
  an internal tick counter; when the counter reaches divider, resets the counter and
  subtracts (amplitude >> decayRate) from amplitude, floored at zero".
\<close>

definition decay_step :: "Env \<Rightarrow> uint16_t" where
  "decay_step e = drop_bit (unat (decay e)) (amp e)"

definition tick :: "Env \<Rightarrow> Env" where
  "tick e =
     (let c = counter e + 1 in
      if c = divider e
      then e\<lparr>amp := (if decay_step e \<le> amp e then amp e - decay_step e else 0), counter := 0\<rparr>
      else e\<lparr>counter := c\<rparr>)"

text \<open>
  Modelled from the spec: \<^verbatim>\<open>Env::value\<close> (not among the sources): "returns the current
  amplitude (or a normalized high-byte, as consumed by the mixer)". The mixer of the
  interrupt handler multiplies by it on the scale of a velocity (comment, lines 305-311),
  which is the high byte.
\<close>

definition "value" :: "Env \<Rightarrow> uint8_t" where
  "value e = ucast (drop_bit 8 (amp e))"

section \<open>Event handlers\<close>

text \<open>The note-on handler (lines 197-217).\<close>

definition noteOn :: "(int \<Rightarrow> uint16_t) \<Rightarrow> MidiMessage \<Rightarrow> Voice \<Rightarrow> Voice" where
  "noteOn flash message v =
     (let number = fst message; velocity = snd message in
      if velocity \<noteq> 0 then
        v\<lparr>note := \<lparr>gate = OPEN, number = number, velocity = velocity\<rparr>,
          env := (Voice.env v)\<lparr>amp := push_bit 8 (ucast velocity), decay := 1, divider := 4\<rparr>,
          sync := (setInc (pgm_read_word midiTable flash (uint number - 24)) (fst (sync v)),
                   setInc (pgm_read_word midiTable flash (uint number - 17)) (snd (sync v)))\<rparr>
      else if Note.number (note v) = number then
        v\<lparr>note := (note v)\<lparr>gate := CLOSED\<rparr>\<rparr>
      else v)"

text \<open>The note-off handler (lines 218-222).\<close>

definition noteOff :: "MidiMessage \<Rightarrow> Voice \<Rightarrow> Voice" where
  "noteOff message v =
     (if Note.number (note v) = fst message
      then v\<lparr>note := (note v)\<lparr>gate := CLOSED\<rparr>\<rparr>
      else v)"

text \<open>The control-change handler (lines 223-238).\<close>

definition controlChange :: "(int \<Rightarrow> uint16_t) \<Rightarrow> MidiMessage \<Rightarrow> Voice \<Rightarrow> Voice" where
  "controlChange flash message v =
     (let controller = fst message; val = snd message;
          g0 = fst (grains v); g1 = snd (grains v) in
      if controller = 1 then
        v\<lparr>grains := (g0\<lparr>Grain.env := (Grain.env g0)\<lparr>decay := drop_bit 3 val\<rparr>\<rparr>,
                      g1\<lparr>Grain.env := (Grain.env g1)\<lparr>decay := drop_bit 4 val\<rparr>\<rparr>)\<rparr>
      else if controller = 16 then
        v\<lparr>grains := (g0\<lparr>phase := setInc (pgm_read_word midiTable flash (uint val)) (phase g0)\<rparr>, g1)\<rparr>
      else if controller = 17 then
        v\<lparr>grains := (g0, g1\<lparr>phase := setInc (pgm_read_word midiTable flash (uint val)) (phase g1)\<rparr>)\<rparr>
      else v)"

section \<open>Interrupt handler\<close>

text \<open>
  The envelope stage of the interrupt handler (lines 291-299): both grain envelopes tick
  on every sample; the master envelope ticks only while the gate is closed.
\<close>

definition ISR_envelopes :: "Voice \<Rightarrow> Voice" where
  "ISR_envelopes v =
     (let g0 = fst (grains v); g1 = snd (grains v) in
      v\<lparr>grains := (g0\<lparr>Grain.env := tick (Grain.env g0)\<rparr>, g1\<lparr>Grain.env := tick (Grain.env g1)\<rparr>),
        env := (if gate (note v) = CLOSED then tick (Voice.env v) else Voice.env v)\<rparr>)"

text \<open>
  The output stage (lines 301-315), from the mixed \<^verbatim>\<open>uint16_t output\<close> on. The values are
  the mathematical ones, as integers, so that whether each fits the C type that receives
  it can be stated. Line 302: \<^verbatim>\<open>static_cast<uint8_t>(output >> 7) - 128\<close>, the cast keeping
  the low 8 bits, the subtraction in \<^verbatim>\<open>int\<close>, the result stored in an \<^verbatim>\<open>int8_t\<close>.
\<close>

definition scaled_output :: "uint16_t \<Rightarrow> int" where
  "scaled_output output = uint (ucast (drop_bit 7 output) :: uint8_t) - 128"

text \<open>
  Modelled from the spec: \<^verbatim>\<open>mulsu\<close> (asm.h, not among the sources), the product of a signed
  and an unsigned byte; the handler uses it for \<^verbatim>\<open>2 * scaled_output\<close>.
\<close>

definition mulsu :: "int \<Rightarrow> int \<Rightarrow> int" where
  "mulsu a b = a * b"

text \<open>
  Lines 314-315: \<^verbatim>\<open>scaled_output_x2 * voices[0].env.value()\<close>, computed in \<^verbatim>\<open>int\<close> (16
  bits), and the sum that is stored back into the \<^verbatim>\<open>int16_t scaled_output_x2\<close>.
\<close>

definition envelope_product :: "int \<Rightarrow> uint8_t \<Rightarrow> int" where
  "envelope_product so v = mulsu so 2 * uint v"

definition scaled_output_x2 :: "int \<Rightarrow> uint8_t \<Rightarrow> int" where
  "scaled_output_x2 so v = mulsu so 2 + envelope_product so v"

definition fits_int8 :: "int \<Rightarrow> bool" where
  "fits_int8 x \<longleftrightarrow> - 128 \<le> x \<and> x \<le> 127"

definition fits_int16 :: "int \<Rightarrow> bool" where
  "fits_int16 x \<longleftrightarrow> - 32768 \<le> x \<and> x \<le> 32767"

section \<open>Frames of the control-change handler\<close>

text \<open>Two envelopes that differ at most in their decay rate.\<close>

definition same_but_decay :: "Env \<Rightarrow> Env \<Rightarrow> bool" where
  "same_but_decay e e' \<longleftrightarrow> amp e' = amp e \<and> divider e' = divider e \<and> counter e' = counter e"

text \<open>
  \<open>v'\<close> differs from \<open>v\<close> at most in the decay rates of the two grains and in the
  increments of the two sync accumulators.
\<close>

definition alters_only_grain_decay_and_sync_increment :: "Voice \<Rightarrow> Voice \<Rightarrow> bool" where
  "alters_only_grain_decay_and_sync_increment v v' \<longleftrightarrow>
     note v' = note v \<and> Voice.env v' = Voice.env v
     \<and> position (fst (sync v')) = position (fst (sync v))
     \<and> position (snd (sync v')) = position (snd (sync v))
     \<and> phase (fst (grains v')) = phase (fst (grains v))
     \<and> phase (snd (grains v')) = phase (snd (grains v))
     \<and> same_but_decay (Grain.env (fst (grains v))) (Grain.env (fst (grains v')))
     \<and> same_but_decay (Grain.env (snd (grains v))) (Grain.env (snd (grains v')))"

text \<open>
  \<open>v'\<close> differs from \<open>v\<close> at most in the decay rates of the two grains and in the
  increments of the two grains' own phase accumulators.
\<close>

definition alters_only_grain_decay_and_grain_increment :: "Voice \<Rightarrow> Voice \<Rightarrow> bool" where
  "alters_only_grain_decay_and_grain_increment v v' \<longleftrightarrow>
     note v' = note v \<and> Voice.env v' = Voice.env v
     \<and> sync v' = sync v
     \<and> position (phase (fst (grains v'))) = position (phase (fst (grains v)))
     \<and> position (phase (snd (grains v'))) = position (phase (snd (grains v)))
     \<and> same_but_decay (Grain.env (fst (grains v))) (Grain.env (fst (grains v')))
     \<and> same_but_decay (Grain.env (snd (grains v))) (Grain.env (snd (grains v')))"

section \<open>Certificates for the chromatic table\<close>

text \<open>
  The exact increment of pitch \<open>p\<close> is \<open>midiNoteToFreq p * 65536 / 31250\<close>, an irrational
  number for most \<open>p\<close>. \<open>entry_certified p m n\<close> is a check in integer arithmetic that
  the exact increment lies in \<open>[m / 1000, (m + 1) / 1000)\<close> (by comparing twelfth powers)
  and that every value within a relative distance of \<open>2 ^ -22\<close> of that interval rounds
  to \<open>n\<close>.
\<close>

definition entry_certified :: "int \<Rightarrow> int \<Rightarrow> int \<Rightarrow> bool" where
  "entry_certified p m n \<longleftrightarrow> 0 < m
     \<and> (25 * m) ^ 12 * 2 ^ 69 \<le> 2 ^ nat p * (352 * 65536) ^ 12
     \<and> 2 ^ nat p * (352 * 65536) ^ 12 < (25 * (m + 1)) ^ 12 * 2 ^ 69
     \<and> (2 * n - 1) * 500 * 2 ^ 22 \<le> m * (2 ^ 22 - 1)
     \<and> (m + 1) * (2 ^ 22 + 1) < (2 * n + 1) * 500 * 2 ^ 22"

fun certified_from :: "int \<Rightarrow> int list \<Rightarrow> int list \<Rightarrow> bool" where
  "certified_from p [] [] = True"
| "certified_from p (m # ms) (n # ns) = (entry_certified p m n \<and> certified_from (p + 1) ms ns)"
| "certified_from p _ _ = False"

text \<open>The exact increments in thousandths, rounded down.\<close>

definition midiTable_millis :: "int list" where
  "midiTable_millis =
    [17145, 18165, 19245, 20390, 21602, 22887, 24247, 25689,
     27217, 28835, 30550, 32367, 34291, 36330, 38491, 40780,
     43204, 45774, 48495, 51379, 54434, 57671, 61101, 64734,
     68583, 72661, 76982, 81560, 86409, 91548, 96991, 102759,
     108869, 115343, 122202, 129468, 137167, 145323, 153964, 163120,
     172819, 183096, 193983, 205518, 217739, 230686, 244404, 258937,
     274334, 290647, 307929, 326240, 345639, 366192, 387967, 411037,
     435478, 461373, 488808, 517874, 548668, 581294, 615859, 652480,
     691279, 732384, 775934, 822074, 870957, 922746, 977616, 1035748,
     1097337, 1162588, 1231719, 1304961, 1382558, 1464769, 1551869, 1644148,
     1741914, 1845493, 1955232, 2071496, 2194674, 2325176, 2463438, 2609922,
     2765116, 2929538, 3103738, 3288296, 3483828, 3690987, 3910465, 4142993,
     4389348, 4650352, 4926877, 5219844, 5530232, 5859077, 6207476, 6576592,
     6967656, 7381975, 7820930, 8285986, 8778697, 9300705, 9853754, 10439689,
     11060465, 11718154, 12414952, 13153184, 13935313, 14763950, 15641860, 16571973,
     17557394, 18601411, 19707508, 20879378, 22120930, 23436309, 24829905, 26306368]"

section \<open>The chromatic table, entry by entry\<close>

lemma semitone_power12: "(2 powr ((real p - 69) / 12)) ^ 12 = 2 ^ p / 2 ^ 69"
proof -
  have "(2 powr ((real p - 69) / 12)) ^ 12 = (2 powr ((real p - 69) / 12)) powr real 12"
    by (rule powr_realpow [symmetric]) simp
  also have "\<dots> = 2 powr ((real p - 69) / 12 * real 12)"
    by (rule powr_powr)
  also have "(real p - 69) / 12 * real 12 = real p - 69"
    by simp
  also have "2 powr (real p - 69) = 2 powr real p / 2 powr 69"
    by (simp add: powr_diff)
  also have "\<dots> = 2 ^ p / 2 ^ 69"
    by (simp add: powr_realpow)
  finally show ?thesis .
qed

lemma entry_bounds:
  assumes "entry_certified (int p) m n"
  shows "real_of_int m / 1000 \<le> midiNoteToFreq (real p) * 65536 / 31250"
    and "midiNoteToFreq (real p) * 65536 / 31250 < (real_of_int m + 1) / 1000"
proof -
  define t :: real where "t = 2 powr ((real p - 69) / 12)"
  have t_pos: "0 < t" by (simp add: t_def)
  have t12: "t ^ 12 = 2 ^ p / 2 ^ 69"
    unfolding t_def by (rule semitone_power12)
  from assms have m_pos: "0 < m"
    and lo: "(25 * m) ^ 12 * 2 ^ 69 \<le> 2 ^ p * (352 * 65536) ^ 12"
    and hi: "2 ^ p * (352 * 65536) ^ 12 < (25 * (m + 1)) ^ 12 * 2 ^ 69"
    by (simp_all add: entry_certified_def)
  define a :: real where "a = 25 * real_of_int m / (352 * 65536)"
  define b :: real where "b = 25 * (real_of_int m + 1) / (352 * 65536)"
  have "real_of_int ((25 * m) ^ 12 * 2 ^ 69) \<le> real_of_int (2 ^ p * (352 * 65536) ^ 12)"
    using lo by (rule of_int_le_iff [THEN iffD2])
  then have "(25 * real_of_int m) ^ 12 * 2 ^ 69 \<le> 2 ^ p * (352 * 65536) ^ 12"
    by simp
  then have "(25 * real_of_int m) ^ 12 / (352 * 65536) ^ 12 \<le> 2 ^ p / 2 ^ 69"
    by (simp add: field_simps)
  then have "a ^ 12 \<le> t ^ 12"
    by (simp add: a_def t12 power_divide)
  then have a_le: "a \<le> t"
    using t_pos by (auto intro: power_le_imp_le_base [where n = 11])
  have "real_of_int (2 ^ p * (352 * 65536) ^ 12) < real_of_int ((25 * (m + 1)) ^ 12 * 2 ^ 69)"
    using hi by (rule of_int_less_iff [THEN iffD2])
  then have "2 ^ p * (352 * 65536) ^ 12 < (25 * (real_of_int m + 1)) ^ 12 * 2 ^ 69"
    by simp
  then have "2 ^ p / 2 ^ 69 < (25 * (real_of_int m + 1)) ^ 12 / (352 * 65536) ^ 12"
    by (simp add: field_simps)
  then have "t ^ 12 < b ^ 12"
    by (simp add: b_def t12 power_divide)
  moreover have "0 \<le> b" using m_pos by (simp add: b_def)
  ultimately have t_less: "t < b"
    by (rule power_less_imp_less_base)
  show "real_of_int m / 1000 \<le> midiNoteToFreq (real p) * 65536 / 31250"
    using a_le by (simp add: midiNoteToFreq_def a_def t_def)
  show "midiNoteToFreq (real p) * 65536 / 31250 < (real_of_int m + 1) / 1000"
    using t_less by (simp add: midiNoteToFreq_def b_def t_def)
qed

lemma entry_round:
  assumes chk: "entry_certified (int p) m n"
    and err: "\<bar>y - midiNoteToFreq (real p) * 65536 / 31250\<bar> \<le> midiNoteToFreq (real p) * 65536 / 31250 / 2 ^ 22"
  shows "\<lfloor>y + 0.5\<rfloor> = n"
proof -
  define x :: real where "x = midiNoteToFreq (real p) * 65536 / 31250"
  have x_lo: "real_of_int m / 1000 \<le> x" and x_hi: "x < (real_of_int m + 1) / 1000"
    unfolding x_def using entry_bounds [OF chk] by simp_all
  from chk have m_pos: "0 < m"
    and n_lo: "(2 * n - 1) * 500 * 2 ^ 22 \<le> m * (2 ^ 22 - 1)"
    and n_hi: "(m + 1) * (2 ^ 22 + 1) < (2 * n + 1) * 500 * 2 ^ 22"
    by (simp_all add: entry_certified_def)
  have "real_of_int ((2 * n - 1) * 500 * 2 ^ 22) \<le> real_of_int (m * (2 ^ 22 - 1))"
    using n_lo by (rule of_int_le_iff [THEN iffD2])
  then have r_lo: "(2 * real_of_int n - 1) * 500 * 2 ^ 22 \<le> real_of_int m * (2 ^ 22 - 1)"
    by simp
  have "real_of_int ((m + 1) * (2 ^ 22 + 1)) < real_of_int ((2 * n + 1) * 500 * 2 ^ 22)"
    using n_hi by (rule of_int_less_iff [THEN iffD2])
  then have r_hi: "(real_of_int m + 1) * (2 ^ 22 + 1) < (2 * real_of_int n + 1) * 500 * 2 ^ 22"
    by simp
  from err have y_lo: "x - x / 2 ^ 22 \<le> y" and y_hi: "y \<le> x + x / 2 ^ 22"
    unfolding x_def by linarith+
  have "real_of_int n \<le> y + 0.5"
    using r_lo x_lo y_lo by (simp add: field_simps)
  moreover have "y + 0.5 < real_of_int n + 1"
    using r_hi x_hi y_hi by (simp add: field_simps)
  ultimately show ?thesis
    by (rule floor_unique)
qed


lemma certified_from_nth:
  "certified_from k ms ns \<Longrightarrow> i < length ns \<Longrightarrow> entry_certified (k + int i) (ms ! i) (ns ! i)"
proof (induction k ms ns arbitrary: i rule: certified_from.induct)
  case (2 p m ms n ns)
  show ?case
  proof (cases i)
    case 0
    with "2.prems" show ?thesis by simp
  next
    case (Suc j)
    with "2.prems" have "entry_certified (p + 1 + int j) (ms ! j) (ns ! j)"
      by (intro "2.IH") simp_all
    with Suc show ?thesis by (simp add: add.assoc)
  qed
qed simp_all

lemma certified_chunk_0:
  "certified_from 0
    [17145, 18165, 19245, 20390, 21602, 22887, 24247, 25689,
     27217, 28835, 30550, 32367, 34291, 36330, 38491, 40780]
    [17, 18, 19, 20, 22, 23, 24, 26,
     27, 29, 31, 32, 34, 36, 38, 41]"
  by (simp add: entry_certified_def)

lemma certified_chunk_1:
  "certified_from 16
    [43204, 45774, 48495, 51379, 54434, 57671, 61101, 64734,
     68583, 72661, 76982, 81560, 86409, 91548, 96991, 102759]
    [43, 46, 48, 51, 54, 58, 61, 65,
     69, 73, 77, 82, 86, 92, 97, 103]"
  by (simp add: entry_certified_def)

lemma certified_chunk_2:
  "certified_from 32
    [108869, 115343, 122202, 129468, 137167, 145323, 153964, 163120,
     172819, 183096, 193983, 205518, 217739, 230686, 244404, 258937]
    [109, 115, 122, 129, 137, 145, 154, 163,
     173, 183, 194, 206, 218, 231, 244, 259]"
  by (simp add: entry_certified_def)

lemma certified_chunk_3:
  "certified_from 48
    [274334, 290647, 307929, 326240, 345639, 366192, 387967, 411037,
     435478, 461373, 488808, 517874, 548668, 581294, 615859, 652480]
    [274, 291, 308, 326, 346, 366, 388, 411,
     435, 461, 489, 518, 549, 581, 616, 652]"
  by (simp add: entry_certified_def)

lemma certified_chunk_4:
  "certified_from 64
    [691279, 732384, 775934, 822074, 870957, 922746, 977616, 1035748,
     1097337, 1162588, 1231719, 1304961, 1382558, 1464769, 1551869, 1644148]
    [691, 732, 776, 822, 871, 923, 978, 1036,
     1097, 1163, 1232, 1305, 1383, 1465, 1552, 1644]"
  by (simp add: entry_certified_def)

lemma certified_chunk_5:
  "certified_from 80
    [1741914, 1845493, 1955232, 2071496, 2194674, 2325176, 2463438, 2609922,
     2765116, 2929538, 3103738, 3288296, 3483828, 3690987, 3910465, 4142993]
    [1742, 1845, 1955, 2071, 2195, 2325, 2463, 2610,
     2765, 2930, 3104, 3288, 3484, 3691, 3910, 4143]"
  by (simp add: entry_certified_def)

lemma certified_chunk_6:
  "certified_from 96
    [4389348, 4650352, 4926877, 5219844, 5530232, 5859077, 6207476, 6576592,
     6967656, 7381975, 7820930, 8285986, 8778697, 9300705, 9853754, 10439689]
    [4389, 4650, 4927, 5220, 5530, 5859, 6207, 6577,
     6968, 7382, 7821, 8286, 8779, 9301, 9854, 10440]"
  by (simp add: entry_certified_def)

lemma certified_chunk_7:
  "certified_from 112
    [11060465, 11718154, 12414952, 13153184, 13935313, 14763950, 15641860, 16571973,
     17557394, 18601411, 19707508, 20879378, 22120930, 23436309, 24829905, 26306368]
    [11060, 11718, 12415, 13153, 13935, 14764, 15642, 16572,
     17557, 18601, 19708, 20879, 22121, 23436, 24830, 26306]"
  by (simp add: entry_certified_def)

lemma midiTable_certified: "certified_from 0 midiTable_millis midiTable_comment"
  unfolding midiTable_millis_def midiTable_comment_def
  using certified_chunk_0 certified_chunk_1 certified_chunk_2 certified_chunk_3
    certified_chunk_4 certified_chunk_5 certified_chunk_6 certified_chunk_7
  by simp

lemma length_midiTable_comment: "length midiTable_comment = 128"
  by (simp add: midiTable_comment_def)

lemma midiTable_entry_certified:
  assumes "p < 128"
  shows "entry_certified (int p) (midiTable_millis ! p) (midiTable_comment ! p)"
  using certified_from_nth [OF midiTable_certified, of p] assms
  by (simp add: length_midiTable_comment)

lemma exact_increment_floor:
  assumes "p < 128"
  shows "\<lfloor>midiNoteToFreq (real p) * 65536 / 31250 + 0.5\<rfloor> = midiTable_comment ! p"
  by (rule entry_round [OF midiTable_entry_certified [OF assms]]) (simp add: midiNoteToFreq_def)

lemma midiTable_comment_range:
  "\<forall>n \<in> set midiTable_comment. 0 < n \<and> n < 65536"
  by (simp add: midiTable_comment_def)

lemma midiTable_comment_nth_range:
  assumes "p < 128"
  shows "0 < midiTable_comment ! p" and "midiTable_comment ! p < 65536"
  using midiTable_comment_range assms nth_mem [of p midiTable_comment]
  by (auto simp: length_midiTable_comment)

lemma length_midiTable: "length midiTable = 128"
  by (simp add: midiTable_def)

lemma midiTable_nth:
  assumes "p < 128"
  shows "midiTable ! p = word_of_int (midiTable_comment ! p)"
proof -
  have "midiTable ! p = MIDI_TO_INC (real p)"
    using assms by (simp add: midiTable_def)
  moreover have "0 \<le> midiNoteToFreq (real p) * 65536 / 31250 + 0.5"
    by (simp add: midiNoteToFreq_def)
  ultimately show ?thesis
    using exact_increment_floor [OF assms]
    by (simp add: MIDI_TO_INC_def freqToInc_def double_to_uint16_def)
qed

lemma uint_midiTable_nth:
  assumes "p < 128"
  shows "uint (midiTable ! p) = midiTable_comment ! p"
  using midiTable_comment_nth_range [OF assms]
  by (simp add: midiTable_nth [OF assms] uint_word_of_int)

lemma midiTable_eq_comment: "midiTable = map word_of_int midiTable_comment"
  by (rule nth_equalityI) (simp_all add: length_midiTable length_midiTable_comment midiTable_nth)


section \<open>Phase accumulator\<close>

lemma position_wraps:
  "unat (position (Phase_increment ph)) = (unat (position ph) + unat (increment ph)) mod 65536"
  by (simp add: Phase_increment_def unat_word_ariths)

lemma overflow_iff_carry:
  "hasOverflowed ph (Phase_increment ph) \<longleftrightarrow> 65536 \<le> unat (position ph) + unat (increment ph)"
proof -
  have "position ph \<le> position ph + increment ph
      \<longleftrightarrow> unat (position ph) + unat (increment ph) < 2 ^ size (position ph)"
    by (rule no_plus_overflow_unat_size)
  then show ?thesis
    by (simp add: hasOverflowed_def Phase_increment_def word_size not_le [symmetric])
qed

text \<open>
  Claim C1. For every 16-bit position and every 16-bit increment, advancing a phase
  accumulator wraps the position modulo \<open>2 ^ 16\<close> and leaves the increment alone; overflow
  is reported exactly when the wrapped position is numerically less than the position
  before the advance, which is exactly when the unbounded sum reached \<open>2 ^ 16\<close>. Advancing
  once from position 65000 with increment 1000 yields position 464 with overflow reported.
\<close>

theorem phase_advance_overflow:
  "unat (position (fst (advance ph))) = (unat (position ph) + unat (increment ph)) mod 65536
   \<and> increment (fst (advance ph)) = increment ph
   \<and> snd (advance ph) = (position (fst (advance ph)) < position ph)
   \<and> snd (advance ph) = (65536 \<le> unat (position ph) + unat (increment ph))
   \<and> advance \<lparr>position = 65000, increment = 1000\<rparr> = (\<lparr>position = 464, increment = 1000\<rparr>, True)"
proof -
  have "advance \<lparr>position = 65000, increment = 1000\<rparr> = (\<lparr>position = 464, increment = 1000\<rparr>, True)"
    by (simp add: advance_def Phase_increment_def hasOverflowed_def)
  moreover have "snd (advance ph) = (65536 \<le> unat (position ph) + unat (increment ph))"
    using overflow_iff_carry [of ph] by (simp add: advance_def Let_def)
  moreover have "unat (position (fst (advance ph))) = (unat (position ph) + unat (increment ph)) mod 65536"
    using position_wraps [of ph] by (simp add: advance_def Let_def)
  moreover have "snd (advance ph) = (position (fst (advance ph)) < position ph)"
    by (simp add: advance_def Let_def hasOverflowed_def)
  moreover have "increment (fst (advance ph)) = increment ph"
    by (simp add: advance_def Let_def Phase_increment_def)
  ultimately show ?thesis by blast
qed

section \<open>Envelope\<close>

lemma decay_step_le: "decay_step e \<le> amp e"
proof -
  have "unat (drop_bit (unat (decay e)) (amp e)) = drop_bit (unat (decay e)) (unat (amp e))"
    by (rule unat_drop_bit_eq)
  also have "\<dots> = unat (amp e) div 2 ^ unat (decay e)"
    by (rule drop_bit_eq_div)
  also have "\<dots> \<le> unat (amp e)"
    by (rule div_le_dividend)
  finally show ?thesis
    by (simp add: decay_step_def word_le_nat_alt)
qed

lemma tick_amp_le: "amp (tick e) \<le> amp e"
  using decay_step_le [of e]
  by (simp add: tick_def Let_def word_sub_le)

lemma ticks_amp_le: "amp ((tick ^^ n) e) \<le> amp e"
proof (induction n)
  case 0
  show ?case by simp
next
  case (Suc n)
  have "amp ((tick ^^ Suc n) e) \<le> amp ((tick ^^ n) e)"
    by (simp add: tick_amp_le)
  from this Suc show ?case by (rule order_trans)
qed

lemma tick_amp_exact:
  "uint (amp (tick e)) =
     (if counter e + 1 = divider e then uint (amp e) - uint (decay_step e) else uint (amp e))"
  using decay_step_le [of e]
  by (simp add: tick_def Let_def uint_minus_simple_alt)

lemma ISR_envelopes_amp_le:
  "amp (Voice.env (ISR_envelopes v)) \<le> amp (Voice.env v)"
  "amp (Grain.env (fst (grains (ISR_envelopes v)))) \<le> amp (Grain.env (fst (grains v)))"
  "amp (Grain.env (snd (grains (ISR_envelopes v)))) \<le> amp (Grain.env (snd (grains v)))"
  by (simp_all add: ISR_envelopes_def Let_def tick_amp_le)

text \<open>
  Claim C7. After any number of \<open>tick\<close> calls the amplitude of an envelope is at most what
  it was before. The amount subtracted at a decay step never exceeds the amplitude, so
  the subtraction never wraps below zero: read as integers, the amplitude after one
  \<open>tick\<close> is the amplitude before minus the decay step (when the counter reaches the
  divider) or the amplitude before (otherwise), and that difference is not negative. In
  particular the envelope stage of the interrupt handler raises neither the master
  envelope's amplitude nor a grain envelope's.
\<close>

theorem env_ticks_never_increase:
  "amp ((tick ^^ n) e) \<le> amp e
   \<and> decay_step e \<le> amp e
   \<and> uint (amp (tick e)) =
       (if counter e + 1 = divider e then uint (amp e) - uint (decay_step e) else uint (amp e))
   \<and> 0 \<le> uint (amp e) - uint (decay_step e)
   \<and> amp (Voice.env (ISR_envelopes v)) \<le> amp (Voice.env v)
   \<and> amp (Grain.env (fst (grains (ISR_envelopes v)))) \<le> amp (Grain.env (fst (grains v)))
   \<and> amp (Grain.env (snd (grains (ISR_envelopes v)))) \<le> amp (Grain.env (snd (grains v)))"
  using ticks_amp_le [of n e] decay_step_le [of e] tick_amp_exact [of e]
    ISR_envelopes_amp_le [of v]
  by (simp add: word_le_def)

section \<open>Note handlers\<close>

lemma in_table_midiTable: "in_table midiTable i \<longleftrightarrow> 0 \<le> i \<and> i < 128"
  by (simp add: in_table_def length_midiTable)

text \<open>
  Claim C6. A note-on with nonzero velocity opens the gate and overwrites the stored key
  number and velocity, whatever the voice held before. A note-off, or a note-on with
  velocity zero, for the stored key number closes the gate and changes nothing else. A
  note-off, or a note-on with velocity zero, for any other key number leaves the voice
  unchanged.
\<close>

theorem note_gate_transitions:
  "(vel \<noteq> 0 \<longrightarrow> note (noteOn flash (n, vel) v) = \<lparr>gate = OPEN, number = n, velocity = vel\<rparr>)
   \<and> (number (note v) = n \<longrightarrow>
        noteOff (n, x) v = v\<lparr>note := (note v)\<lparr>gate := CLOSED\<rparr>\<rparr>
        \<and> noteOn flash (n, 0) v = v\<lparr>note := (note v)\<lparr>gate := CLOSED\<rparr>\<rparr>)
   \<and> (number (note v) \<noteq> n \<longrightarrow> noteOff (n, x) v = v \<and> noteOn flash (n, 0) v = v)"
  by (simp add: noteOn_def noteOff_def)

theorem note_gate_transitions_witness:
  "(127 :: uint8_t) \<noteq> 0
   \<and> note (noteOn no_flash (69, 127) zero_Voice) = \<lparr>gate = OPEN, number = 69, velocity = 127\<rparr>
   \<and> number (note (noteOn no_flash (69, 127) zero_Voice)) = 69
   \<and> gate (note (noteOff (69, 0) (noteOn no_flash (69, 127) zero_Voice))) = CLOSED
   \<and> gate (note (noteOn no_flash (69, 0) (noteOn no_flash (69, 127) zero_Voice))) = CLOSED
   \<and> number (note (noteOn no_flash (69, 127) zero_Voice)) \<noteq> 70
   \<and> noteOff (70, 0) (noteOn no_flash (69, 127) zero_Voice) = noteOn no_flash (69, 127) zero_Voice
   \<and> noteOn no_flash (70, 0) (noteOn no_flash (69, 127) zero_Voice) = noteOn no_flash (69, 127) zero_Voice"
proof -
  have on: "note (noteOn no_flash (69, 127) zero_Voice) = \<lparr>gate = OPEN, number = 69, velocity = 127\<rparr>"
    using note_gate_transitions [of 127 no_flash 69 zero_Voice] by simp
  then have num: "number (note (noteOn no_flash (69, 127) zero_Voice)) = 69"
    by simp
  show ?thesis
    using on num
      note_gate_transitions [of 0 no_flash 69 "noteOn no_flash (69, 127) zero_Voice" 0]
      note_gate_transitions [of 0 no_flash 70 "noteOn no_flash (69, 127) zero_Voice" 0]
    by simp
qed

lemma midiTable_values:
  "midiTable ! 45 = 231" "midiTable ! 52 = 346" "midiTable ! 69 = 923"
  by (simp_all add: midiTable_nth midiTable_comment_def)

text \<open>
  Claim C3. A note-on for key 69 with velocity 127, arriving in any voice state, opens the
  gate with number 69 and velocity 127, sets the master envelope to amplitude
  \<open>127 << 8 = 32512\<close>, decay 1 and divider 4, and sets the two sync increments to the
  chromatic-table entries of pitches \<open>69 - 24 = 45\<close> and \<open>69 - 17 = 52\<close>, which are
  \<open>MIDI_TO_INC 45 = 231\<close> and \<open>MIDI_TO_INC 52 = 346\<close>.
\<close>

theorem noteOn_A4:
  "note (noteOn flash (69, 127) v) = \<lparr>gate = OPEN, number = 69, velocity = 127\<rparr>
   \<and> amp (Voice.env (noteOn flash (69, 127) v)) = 32512
   \<and> decay (Voice.env (noteOn flash (69, 127) v)) = 1
   \<and> divider (Voice.env (noteOn flash (69, 127) v)) = 4
   \<and> increment (fst (sync (noteOn flash (69, 127) v))) = midiTable ! 45
   \<and> increment (snd (sync (noteOn flash (69, 127) v))) = midiTable ! 52
   \<and> midiTable ! 45 = MIDI_TO_INC 45 \<and> midiTable ! 45 = 231
   \<and> midiTable ! 52 = MIDI_TO_INC 52 \<and> midiTable ! 52 = 346"
proof -
  have "midiTable ! 45 = MIDI_TO_INC 45" "midiTable ! 52 = MIDI_TO_INC 52"
    by (simp_all add: midiTable_def)
  then show ?thesis
    by (simp add: noteOn_def setInc_def pgm_read_word_def in_table_midiTable midiTable_values)
qed

section \<open>Entries of the chromatic table\<close>

text \<open>
  Claim C4. For every pitch number \<open>p\<close> from 0 to 127 the chromatic-table entry, read as
  an unsigned number, is \<open>round (440 * 2 ^ ((p - 69) / 12) * 65536 / 31250)\<close> (the
  conversion to 16 bits loses nothing), and an accumulator whose increment was set from
  that entry reads back the same value.
\<close>

theorem midiTable_entry_rounds:
  assumes "p < 128"
  shows "uint (midiTable ! p) = round (440 * 2 powr ((real p - 69) / 12) * 65536 / 31250)
    \<and> uint (increment (setInc (midiTable ! p) ph))
          = round (440 * 2 powr ((real p - 69) / 12) * 65536 / 31250)"
proof -
  have "440 * 2 powr ((real p - 69) / 12) * 65536 / 31250 + 1 / 2
      = midiNoteToFreq (real p) * 65536 / 31250 + 0.5"
    by (simp add: midiNoteToFreq_def)
  then have "round (440 * 2 powr ((real p - 69) / 12) * 65536 / 31250)
      = \<lfloor>midiNoteToFreq (real p) * 65536 / 31250 + 0.5\<rfloor>"
    unfolding round_def by (rule arg_cong)
  also have "\<dots> = midiTable_comment ! p"
    by (rule exact_increment_floor [OF assms])
  also have "\<dots> = uint (midiTable ! p)"
    by (rule uint_midiTable_nth [OF assms, symmetric])
  finally have "uint (midiTable ! p) = round (440 * 2 powr ((real p - 69) / 12) * 65536 / 31250)"
    by (rule sym)
  then show ?thesis
    by (simp add: setInc_def)
qed

theorem midiTable_entry_rounds_witness:
  "(69 :: nat) < 128
   \<and> uint (midiTable ! 69) = round (440 * 2 powr ((real 69 - 69) / 12) * 65536 / 31250)
   \<and> uint (increment (setInc (midiTable ! 69) zero_Phase))
         = round (440 * 2 powr ((real 69 - 69) / 12) * 65536 / 31250)
   \<and> uint (midiTable ! 69) = 923"
  using midiTable_entry_rounds [of 69] by (simp add: midiTable_values)

text \<open>
  The table does not depend on the last bits of the floating-point evaluation: any
  approximation of the exact increment with a relative error of at most \<open>2 ^ -22\<close>
  converts to the same entry.
\<close>

lemma midiTable_rounding_robust:
  assumes "p < 128"
    and "\<bar>y - midiNoteToFreq (real p) * 65536 / 31250\<bar>
          \<le> midiNoteToFreq (real p) * 65536 / 31250 / 2 ^ 22"
  shows "double_to_uint16 (y + 0.5) = midiTable ! p"
proof -
  have fl: "\<lfloor>y + 0.5\<rfloor> = midiTable_comment ! p"
    by (rule entry_round [OF midiTable_entry_certified [OF assms(1)] assms(2)])
  have "0 < midiTable_comment ! p"
    by (rule midiTable_comment_nth_range [OF assms(1)])
  with fl have "0 \<le> y + 0.5"
    by (metis floor_less_zero less_le_not_le not_le)
  with fl show ?thesis
    by (simp add: double_to_uint16_def midiTable_nth [OF assms(1)])
qed

lemma midiTable_comment_increasing: "successively (<) midiTable_comment"
  by (simp add: midiTable_comment_def)

lemma successively_nth:
  "successively P xs \<Longrightarrow> Suc i < length xs \<Longrightarrow> P (xs ! i) (xs ! Suc i)"
proof (induction P xs arbitrary: i rule: successively.induct)
  case (3 P x y xs)
  then show ?case by (cases i) simp_all
qed simp_all

text \<open>
  Claim C5. The chromatic table is strictly increasing: for every \<open>p\<close> from 0 to 126,
  entry \<open>p + 1\<close> is greater than entry \<open>p\<close>.
\<close>

theorem midiTable_strictly_increasing:
  assumes "p < 127"
  shows "midiTable ! p < midiTable ! (p + 1)"
proof -
  have "midiTable_comment ! p < midiTable_comment ! Suc p"
    using assms by (intro successively_nth [OF midiTable_comment_increasing])
      (simp add: length_midiTable_comment)
  moreover have "uint (midiTable ! p) = midiTable_comment ! p"
    and "uint (midiTable ! Suc p) = midiTable_comment ! Suc p"
    using assms by (simp_all add: uint_midiTable_nth)
  ultimately show ?thesis
    by (simp add: word_less_def)
qed

theorem midiTable_strictly_increasing_witness:
  "(0 :: nat) < 127 \<and> midiTable ! 0 < midiTable ! (0 + 1)"
  using midiTable_strictly_increasing [of 0] by simp

section \<open>Control-change handler\<close>

text \<open>
  Claim C8, as stated, fails: it lets the control-change handler alter only grain decay
  rates and sync increments. Controller 16 with value 69 on the zero-initialised voice
  sets the phase increment of grain 0 (to 923), which is neither.
\<close>

theorem controlChange_alters_grain_increment:
  "\<not> alters_only_grain_decay_and_sync_increment zero_Voice
        (controlChange no_flash (16, 69) zero_Voice)"
  by (simp add: alters_only_grain_decay_and_sync_increment_def controlChange_def setInc_def
      pgm_read_word_def in_table_midiTable midiTable_values zero_Voice_def zero_Grain_def
      zero_Phase_def)

text \<open>
  Claim C8, amended. For every control-change message the handler alters at most the decay
  rates of the two grains and the increments of the two grains' own phase accumulators:
  the note (gate, number, velocity), the master envelope, both sync accumulators
  (increments included), the grains' phase positions and the amplitude, divider and
  counter of the grains' envelopes are unchanged. Controller 1 sets the decay rates of
  grain 0 and grain 1 to \<open>value >> 3\<close> and \<open>value >> 4\<close> and leaves both grain phases
  alone. Controller 16 sets the phase increment of grain 0, and controller 17 that of
  grain 1, to the word read from the chromatic table at \<open>value\<close> (the table entry, for a
  value of at most 127), and leaves the other grain and the grain's own envelope alone.
  Any other controller changes nothing.
\<close>

theorem controlChange_frame:
  "alters_only_grain_decay_and_grain_increment v (controlChange flash (controller, val) v)
   \<and> (controller = 1 \<longrightarrow>
        phase (fst (grains (controlChange flash (controller, val) v))) = phase (fst (grains v))
        \<and> phase (snd (grains (controlChange flash (controller, val) v))) = phase (snd (grains v))
        \<and> decay (Grain.env (fst (grains (controlChange flash (controller, val) v)))) = drop_bit 3 val
        \<and> decay (Grain.env (snd (grains (controlChange flash (controller, val) v)))) = drop_bit 4 val)
   \<and> (controller = 16 \<longrightarrow>
        snd (grains (controlChange flash (controller, val) v)) = snd (grains v)
        \<and> Grain.env (fst (grains (controlChange flash (controller, val) v))) = Grain.env (fst (grains v))
        \<and> increment (phase (fst (grains (controlChange flash (controller, val) v))))
            = pgm_read_word midiTable flash (uint val))
   \<and> (controller = 17 \<longrightarrow>
        fst (grains (controlChange flash (controller, val) v)) = fst (grains v)
        \<and> Grain.env (snd (grains (controlChange flash (controller, val) v))) = Grain.env (snd (grains v))
        \<and> increment (phase (snd (grains (controlChange flash (controller, val) v))))
            = pgm_read_word midiTable flash (uint val))
   \<and> (controller \<noteq> 1 \<and> controller \<noteq> 16 \<and> controller \<noteq> 17 \<longrightarrow>
        controlChange flash (controller, val) v = v)
   \<and> (val \<le> 127 \<longrightarrow> pgm_read_word midiTable flash (uint val) = midiTable ! unat val)"
proof -
  have frame: "alters_only_grain_decay_and_grain_increment v (controlChange flash (controller, val) v)"
    by (simp add: alters_only_grain_decay_and_grain_increment_def controlChange_def Let_def
        setInc_def same_but_decay_def)
  have c1: "controller = 1 \<longrightarrow>
        phase (fst (grains (controlChange flash (controller, val) v))) = phase (fst (grains v))
        \<and> phase (snd (grains (controlChange flash (controller, val) v))) = phase (snd (grains v))
        \<and> decay (Grain.env (fst (grains (controlChange flash (controller, val) v)))) = drop_bit 3 val
        \<and> decay (Grain.env (snd (grains (controlChange flash (controller, val) v)))) = drop_bit 4 val"
    by (simp add: controlChange_def Let_def)
  have c16: "controller = 16 \<longrightarrow>
        snd (grains (controlChange flash (controller, val) v)) = snd (grains v)
        \<and> Grain.env (fst (grains (controlChange flash (controller, val) v))) = Grain.env (fst (grains v))
        \<and> increment (phase (fst (grains (controlChange flash (controller, val) v))))
            = pgm_read_word midiTable flash (uint val)"
    by (simp add: controlChange_def Let_def setInc_def)
  have c17: "controller = 17 \<longrightarrow>
        fst (grains (controlChange flash (controller, val) v)) = fst (grains v)
        \<and> Grain.env (snd (grains (controlChange flash (controller, val) v))) = Grain.env (snd (grains v))
        \<and> increment (phase (snd (grains (controlChange flash (controller, val) v))))
            = pgm_read_word midiTable flash (uint val)"
    by (simp add: controlChange_def Let_def setInc_def)
  have other: "controller \<noteq> 1 \<and> controller \<noteq> 16 \<and> controller \<noteq> 17 \<longrightarrow>
        controlChange flash (controller, val) v = v"
    by (simp add: controlChange_def Let_def)
  have tab: "val \<le> 127 \<longrightarrow> pgm_read_word midiTable flash (uint val) = midiTable ! unat val"
  proof
    assume "val \<le> 127"
    then have "uint val \<le> 127"
      by (simp add: word_le_def)
    then show "pgm_read_word midiTable flash (uint val) = midiTable ! unat val"
      by (simp add: pgm_read_word_def in_table_midiTable)
  qed
  from frame c1 c16 c17 other tab show ?thesis by blast
qed

theorem controlChange_frame_witness:
  "(1 :: uint8_t) = 1 \<and> (100 :: uint8_t) \<le> 127
   \<and> decay (Grain.env (fst (grains (controlChange no_flash (1, 100) zero_Voice)))) = 12
   \<and> decay (Grain.env (snd (grains (controlChange no_flash (1, 100) zero_Voice)))) = 6
   \<and> phase (fst (grains (controlChange no_flash (1, 100) zero_Voice))) = zero_Phase
   \<and> (16 :: uint8_t) = 16 \<and> (69 :: uint8_t) \<le> 127
   \<and> increment (phase (fst (grains (controlChange no_flash (16, 69) zero_Voice)))) = 923
   \<and> snd (grains (controlChange no_flash (16, 69) zero_Voice)) = zero_Grain
   \<and> (17 :: uint8_t) = 17
   \<and> increment (phase (snd (grains (controlChange no_flash (17, 69) zero_Voice)))) = 923
   \<and> fst (grains (controlChange no_flash (17, 69) zero_Voice)) = zero_Grain
   \<and> (7 :: uint8_t) \<noteq> 1 \<and> (7 :: uint8_t) \<noteq> 16 \<and> (7 :: uint8_t) \<noteq> 17
   \<and> controlChange no_flash (7, 69) zero_Voice = zero_Voice"
  using controlChange_frame [where controller = 1 and val = 100 and v = zero_Voice and flash = no_flash]
    controlChange_frame [where controller = 16 and val = 69 and v = zero_Voice and flash = no_flash]
    controlChange_frame [where controller = 17 and val = 69 and v = zero_Voice and flash = no_flash]
    controlChange_frame [where controller = 7 and val = 69 and v = zero_Voice and flash = no_flash]
  by (simp add: midiTable_values zero_Voice_def zero_Grain_def)

section \<open>Control mappings\<close>

lemma length_pentatonicTable: "length pentatonicTable = 54"
  by (simp add: pentatonicTable_def)

lemma unat_mapMidi_index:
  assumes "input \<le> 1023"
  shows "unat (mapMidi_index input) = (1023 - unat input) div 8"
proof -
  have "unat (1023 - input) = unat (1023 :: uint16_t) - unat input"
    using assms by (rule unat_sub)
  then have sub: "unat (1023 - input) = 1023 - unat input"
    by simp
  have "unat (drop_bit 3 (1023 - input)) = drop_bit 3 (unat (1023 - input))"
    by (rule unat_drop_bit_eq)
  also have "\<dots> = unat (1023 - input) div 2 ^ 3"
    by (rule drop_bit_eq_div)
  finally show ?thesis
    by (simp add: mapMidi_index_def sub)
qed

lemma unat_mapPentatonic_value:
  assumes "input \<le> 1023"
  shows "unat (mapPentatonic_value input) = (1023 - unat input) * 53 div 1024"
proof -
  have sub: "unat (1023 - input) = 1023 - unat input"
    using unat_sub [OF assms] by simp
  have "unat (1023 - input) * unat (53 :: uint16_t) < 2 ^ LENGTH(16)"
    by (simp add: sub)
  then have "unat ((1023 - input) * 53) = unat (1023 - input) * unat (53 :: uint16_t)"
    by (rule unat_mult_lem [THEN iffD1])
  then have prod: "unat ((1023 - input) * 53) = (1023 - unat input) * 53"
    by (simp add: sub)
  have "unat (drop_bit 10 ((1023 - input) * 53)) = drop_bit 10 (unat ((1023 - input) * 53))"
    by (rule unat_drop_bit_eq)
  also have "\<dots> = unat ((1023 - input) * 53) div 2 ^ 10"
    by (rule drop_bit_eq_div)
  finally have shifted: "unat (drop_bit 10 ((1023 - input) * 53)) = (1023 - unat input) * 53 div 1024"
    by (simp only: prod) simp
  have small: "(1023 - unat input) * 53 div 1024 < 256"
    by simp
  have "unat (mapPentatonic_value input) = take_bit LENGTH(8) (unat (drop_bit 10 ((1023 - input) * 53)))"
    unfolding mapPentatonic_value_def by (rule unsigned_ucast_eq)
  also have "\<dots> = take_bit LENGTH(8) ((1023 - unat input) * 53 div 1024)"
    by (simp only: shifted)
  also have "\<dots> = (1023 - unat input) * 53 div 1024"
    using small by (intro take_bit_nat_eq_self) simp
  finally show ?thesis .
qed

text \<open>
  Claim C9. For every control input from 0 to 1023 the index that \<open>mapPentatonic\<close>
  computes is \<open>(1023 - input) * 53 div 1024\<close>, at most 52, so it lies within the 54-entry
  pentatonic table and never selects its last entry 53; the index that \<open>mapMidi\<close>
  computes is \<open>(1023 - input) div 8\<close>, at most 127, so it lies within the 128-entry
  chromatic table. Both functions return the table entry at that index.
\<close>

theorem control_indices_in_range:
  assumes "input \<le> 1023"
  shows "unat (mapPentatonic_value input) = (1023 - unat input) * 53 div 1024
    \<and> unat (mapPentatonic_value input) \<le> 52
    \<and> mapPentatonic_value input \<noteq> 53
    \<and> in_table pentatonicTable (uint (mapPentatonic_value input))
    \<and> length pentatonicTable = 54
    \<and> mapPentatonic flash input = pentatonicTable ! unat (mapPentatonic_value input)
    \<and> unat (mapMidi_index input) = (1023 - unat input) div 8
    \<and> unat (mapMidi_index input) \<le> 127
    \<and> in_table midiTable (uint (mapMidi_index input))
    \<and> length midiTable = 128
    \<and> mapMidi flash input = midiTable ! unat (mapMidi_index input)"
proof -
  have p: "unat (mapPentatonic_value input) = (1023 - unat input) * 53 div 1024"
    by (rule unat_mapPentatonic_value [OF assms])
  have m: "unat (mapMidi_index input) = (1023 - unat input) div 8"
    by (rule unat_mapMidi_index [OF assms])
  have p52: "unat (mapPentatonic_value input) \<le> 52"
    unfolding p by simp
  have m127: "unat (mapMidi_index input) \<le> 127"
    unfolding m by simp
  have pne: "mapPentatonic_value input \<noteq> 53"
  proof
    assume "mapPentatonic_value input = 53"
    then have "unat (mapPentatonic_value input) = 53" by simp
    with p52 show False by simp
  qed
  have "uint (mapPentatonic_value input) \<le> 52"
    using p52 unfolding uint_nat by linarith
  then have pin: "in_table pentatonicTable (uint (mapPentatonic_value input))"
    by (simp add: in_table_def length_pentatonicTable)
  have "uint (mapMidi_index input) \<le> 127"
    using m127 unfolding uint_nat by linarith
  then have min: "in_table midiTable (uint (mapMidi_index input))"
    by (simp add: in_table_def length_midiTable)
  have "mapPentatonic flash input = pentatonicTable ! unat (mapPentatonic_value input)"
    using pin by (simp add: mapPentatonic_def pgm_read_word_def)
  moreover have "mapMidi flash input = midiTable ! unat (mapMidi_index input)"
    using min by (simp add: mapMidi_def pgm_read_word_def)
  ultimately show ?thesis
    using p m p52 m127 pne pin min by (simp add: length_pentatonicTable length_midiTable)
qed

theorem control_indices_in_range_witness:
  "(0 :: uint16_t) \<le> 1023
   \<and> unat (mapPentatonic_value 0) = 52
   \<and> in_table pentatonicTable (uint (mapPentatonic_value 0))
   \<and> unat (mapMidi_index 0) = 127
   \<and> in_table midiTable (uint (mapMidi_index 0))"
  using control_indices_in_range [of 0] by simp

section \<open>Table lookups of the note-on handler\<close>

text \<open>
  Claim C10. The note-on handler reads the chromatic table at \<open>number - 24\<close> and
  \<open>number - 17\<close> with no bounds guard: for nonzero velocity the sync increments are
  whatever \<open>pgm_read_word\<close> returns there. For nonzero velocity and a key number from 24
  to 127 both indices lie within the table. There is a note-on that is valid at the
  interface (key number and velocity at most 127, velocity nonzero) with key number below
  24 whose index \<open>number - 24\<close> lies outside the table, so that the first sync increment
  becomes the flash content beside the table.
\<close>

theorem noteOn_lookup_unguarded:
  "(vel \<noteq> 0 \<longrightarrow>
      increment (fst (sync (noteOn flash (n, vel) v))) = pgm_read_word midiTable flash (uint n - 24)
      \<and> increment (snd (sync (noteOn flash (n, vel) v))) = pgm_read_word midiTable flash (uint n - 17))
   \<and> (vel \<noteq> 0 \<and> 24 \<le> n \<and> n \<le> 127 \<longrightarrow>
      in_table midiTable (uint n - 24) \<and> in_table midiTable (uint n - 17))
   \<and> (\<exists>n' vel'. n' \<le> 127 \<and> 0 < vel' \<and> vel' \<le> 127 \<and> n' < (24 :: uint8_t)
        \<and> \<not> in_table midiTable (uint n' - 24)
        \<and> increment (fst (sync (noteOn flash (n', vel') v))) = flash (uint n' - 24))"
proof -
  have a: "vel \<noteq> 0 \<longrightarrow>
      increment (fst (sync (noteOn flash (n, vel) v))) = pgm_read_word midiTable flash (uint n - 24)
      \<and> increment (snd (sync (noteOn flash (n, vel) v))) = pgm_read_word midiTable flash (uint n - 17)"
    by (simp add: noteOn_def setInc_def)
  have b: "vel \<noteq> 0 \<and> 24 \<le> n \<and> n \<le> 127 \<longrightarrow>
      in_table midiTable (uint n - 24) \<and> in_table midiTable (uint n - 17)"
    by (auto simp: in_table_midiTable word_le_def)
  have "(0 :: uint8_t) \<le> 127 \<and> 0 < (1 :: uint8_t) \<and> (1 :: uint8_t) \<le> 127 \<and> 0 < (24 :: uint8_t)
        \<and> \<not> in_table midiTable (uint (0 :: uint8_t) - 24)
        \<and> increment (fst (sync (noteOn flash (0, 1) v))) = flash (uint (0 :: uint8_t) - 24)"
    by (simp add: in_table_midiTable noteOn_def setInc_def pgm_read_word_def)
  then have c: "\<exists>n' vel'. n' \<le> 127 \<and> 0 < vel' \<and> vel' \<le> 127 \<and> n' < (24 :: uint8_t)
        \<and> \<not> in_table midiTable (uint n' - 24)
        \<and> increment (fst (sync (noteOn flash (n', vel') v))) = flash (uint n' - 24)"
    by blast
  from a b c show ?thesis by blast
qed

theorem noteOn_lookup_unguarded_witness:
  "(127 :: uint8_t) \<noteq> 0 \<and> (24 :: uint8_t) \<le> 69 \<and> (69 :: uint8_t) \<le> 127
   \<and> in_table midiTable (uint (69 :: uint8_t) - 24)
   \<and> in_table midiTable (uint (69 :: uint8_t) - 17)
   \<and> increment (fst (sync (noteOn no_flash (69, 127) zero_Voice)))
        = pgm_read_word midiTable no_flash (uint (69 :: uint8_t) - 24)"
  using noteOn_lookup_unguarded [of 127 no_flash 69 zero_Voice] by simp

section \<open>The output stage of the interrupt handler\<close>

text \<open>
  From the mixed \<^verbatim>\<open>output\<close> on, no intermediate value of the output stage leaves the type
  that holds it, as long as the master envelope's value is at most 127. That bound is an
  invariant: it holds for the zero-initialised voice, a note-on with a velocity of at most
  127 establishes it again, and no other handler and no tick raises the amplitude.
  (Whether the sum of the two grain samples fits \<^verbatim>\<open>uint16_t\<close> depends on
  \<^verbatim>\<open>Grain::getSample\<close>, which is not among the sources.)
\<close>

lemma scaled_output_fits: "fits_int8 (scaled_output output)"
proof -
  have "uint (ucast (drop_bit 7 output) :: uint8_t) < 2 ^ LENGTH(8)"
    by (rule uint_bounded)
  moreover have "0 \<le> uint (ucast (drop_bit 7 output) :: uint8_t)"
    by simp
  ultimately show ?thesis
    by (simp add: fits_int8_def scaled_output_def)
qed

lemma scaled_output_x2_fits:
  assumes so: "fits_int8 so" and v: "uint v \<le> 127"
  shows "fits_int16 (envelope_product so v)" and "fits_int16 (scaled_output_x2 so v)"
proof -
  have v0: "0 \<le> uint v" by simp
  from so have lo: "- 128 \<le> so" and hi: "so \<le> 127"
    by (simp_all add: fits_int8_def)
  have "so * uint v \<le> 127 * uint v"
    using hi v0 by (rule mult_right_mono)
  then have up: "so * uint v \<le> 127 * 127"
    using v by linarith
  have "- 128 * uint v \<le> so * uint v"
    using lo v0 by (rule mult_right_mono)
  then have down: "- 128 * 127 \<le> so * uint v"
    using v by linarith
  show "fits_int16 (envelope_product so v)"
    using up down by (simp add: fits_int16_def envelope_product_def mulsu_def)
  show "fits_int16 (scaled_output_x2 so v)"
    using up down lo hi
    by (simp add: fits_int16_def scaled_output_x2_def envelope_product_def mulsu_def)
qed

lemma value_le_127:
  assumes "amp e \<le> 32512"
  shows "uint (value e) \<le> 127"
proof -
  have a: "unat (amp e) \<le> 32512"
    using assms by (simp add: word_le_nat_alt)
  have "unat (drop_bit 8 (amp e)) = drop_bit 8 (unat (amp e))"
    by (rule unat_drop_bit_eq)
  also have "\<dots> = unat (amp e) div 2 ^ 8"
    by (rule drop_bit_eq_div)
  finally have shifted: "unat (drop_bit 8 (amp e)) \<le> 127"
    using a by simp
  have "unat (value e) = take_bit LENGTH(8) (unat (drop_bit 8 (amp e)))"
    unfolding value_def by (rule unsigned_ucast_eq)
  also have "\<dots> \<le> unat (drop_bit 8 (amp e))"
    by (rule take_bit_nat_less_eq_self)
  finally have "unat (value e) \<le> 127"
    using shifted by simp
  then show ?thesis
    unfolding uint_nat by linarith
qed

lemma noteOn_amp_bound:
  assumes vel: "vel \<le> 127" and inv: "amp (Voice.env v) \<le> 32512"
  shows "amp (Voice.env (noteOn flash (n, vel) v)) \<le> 32512"
proof (cases "vel = 0")
  case True
  with inv show ?thesis by (simp add: noteOn_def)
next
  case False
  have "unat vel \<le> 127"
    using vel by (simp add: word_le_nat_alt)
  moreover have "unat (ucast vel :: uint16_t) = take_bit LENGTH(16) (unat vel)"
    by (rule unsigned_ucast_eq)
  moreover have "take_bit LENGTH(16) (unat vel) \<le> unat vel"
    by (rule take_bit_nat_less_eq_self)
  ultimately have "unat (ucast vel :: uint16_t) \<le> 127"
    by linarith
  then have "unat (ucast vel :: uint16_t) * 2 ^ 8 \<le> 32512"
    by simp
  moreover have "unat (push_bit 8 (ucast vel :: uint16_t)) = unat (ucast vel :: uint16_t) * 2 ^ 8 mod 2 ^ 16"
    by (simp add: push_bit_eq_mult unat_word_ariths)
  moreover have "unat (ucast vel :: uint16_t) * 2 ^ 8 mod 2 ^ 16 \<le> unat (ucast vel :: uint16_t) * 2 ^ 8"
    by (rule mod_less_eq_dividend)
  ultimately have "unat (push_bit 8 (ucast vel :: uint16_t)) \<le> 32512"
    by linarith
  then have "push_bit 8 (ucast vel :: uint16_t) \<le> 32512"
    by (simp add: word_le_nat_alt)
  with False show ?thesis by (simp add: noteOn_def)
qed

lemma other_handlers_keep_env:
  "Voice.env (noteOff message v) = Voice.env v"
  "Voice.env (controlChange flash message v) = Voice.env v"
  by (simp_all add: noteOff_def controlChange_def Let_def)

lemma master_value_le_127:
  assumes "vel \<le> 127" and "amp (Voice.env v) \<le> 32512"
  shows "uint (value ((tick ^^ k) (Voice.env (noteOn flash (n, vel) v)))) \<le> 127"
proof -
  have "amp ((tick ^^ k) (Voice.env (noteOn flash (n, vel) v)))
      \<le> amp (Voice.env (noteOn flash (n, vel) v))"
    by (rule ticks_amp_le)
  also have "\<dots> \<le> 32512"
    using assms by (rule noteOn_amp_bound)
  finally show ?thesis
    by (rule value_le_127)
qed

lemma output_stage_fits:
  assumes "vel \<le> 127" and "amp (Voice.env v) \<le> 32512"
  shows "fits_int8 (scaled_output output)"
    and "fits_int16 (envelope_product (scaled_output output)
           (value ((tick ^^ k) (Voice.env (noteOn flash (n, vel) v)))))"
    and "fits_int16 (scaled_output_x2 (scaled_output output)
           (value ((tick ^^ k) (Voice.env (noteOn flash (n, vel) v)))))"
  using scaled_output_fits scaled_output_x2_fits [OF scaled_output_fits master_value_le_127 [OF assms]]
  by simp_all

end
